theory Spec2Isabelle
  imports Complex_Main "HOL-Library.Signed_Division"
begin

section \<open>Conventions\<close>

text \<open>
  This theory embeds the forward-pass orchestrator of the decoder
  (\<^verbatim>\<open>CommonDecoder\<close> in \<^verbatim>\<open>src/models/common_decoder.h\<close>) and the attention-mask
  preparation of \<^verbatim>\<open>OptDecoder\<close>.

  \<^item> C++ \<^verbatim>\<open>int\<close> and \<^verbatim>\<open>int64_t\<close> values are modelled by \<open>int\<close>. Signed overflow is
    undefined behaviour in the source; the theorems are about runs in which it does not
    occur. Division and remainder truncate towards zero (\<open>sdiv\<close>, \<open>smod\<close>).
  \<^item> A buffer is a list of cells. Every access is checked against the allocation; an
    access outside it, a null dereference and a division by zero end the run with
    \<open>UB\<close>.
  \<^item> \<^verbatim>\<open>exit(-1)\<close> after a diagnostic ends the run with \<open>Exit\<close> and the diagnostic.
  \<^item> A busy-wait loop that never ends is \<open>Hang\<close>.
  \<^item> Calls into collaborators whose code is elsewhere (embedding, attention, FFN,
    reduction, normalisation, projection, KV cache, MPI) are logged as events and
    their effect on memory is left to a parameter of the model.
\<close>

datatype error = Exit string | UB | Hang

section \<open>Memory\<close>

definition in_range :: "'a list \<Rightarrow> int \<Rightarrow> int \<Rightarrow> bool" where
  "in_range m off n \<longleftrightarrow> 0 \<le> off \<and> 0 \<le> n \<and> off + n \<le> int (length m)"

text \<open>\<open>store m off n f\<close> writes the \<open>n\<close> cells \<open>f 0, f 1, ...\<close> at offset \<open>off\<close>.\<close>

definition store :: "'a list \<Rightarrow> int \<Rightarrow> int \<Rightarrow> (nat \<Rightarrow> 'a) \<Rightarrow> error + 'a list" where
  "store m off n f =
     (if in_range m off n
      then Inr (map (\<lambda>k. if nat off \<le> k \<and> k < nat (off + n) then f (k - nat off) else m ! k)
                  [0..<length m])
      else Inl UB)"



text \<open>
  \<^verbatim>\<open>memcpy(dst, src, n * sizeof(T))\<close> inside one buffer: the source cells are read
  before any is written; overlapping areas are undefined behaviour.
\<close>

definition memcpy :: "'a list \<Rightarrow> int \<Rightarrow> int \<Rightarrow> int \<Rightarrow> error + 'a list" where
  "memcpy m dst src n =
     (if in_range m src n \<and> in_range m dst n \<and> (n = 0 \<or> dst + n \<le> src \<or> src + n \<le> dst)
      then store m dst n (\<lambda>k. m ! (nat src + k))
      else Inl UB)"


section \<open>Data model\<close>

text \<open>
  \<^verbatim>\<open>DecoderContext\<close> (declared in \<^verbatim>\<open>transformer_ctx.h\<close>, used here through its
  fields). Only the fields the orchestrator reads are kept.
\<close>

record DecoderContext =
  layers :: int
  hiddenSize :: int
  attHeadSize :: int
  attHeadNum :: int
  kvHeadNum :: int
  intermediateSize :: int
  vocabSize :: int
  maxPositions :: int
  tpRank :: int
  tpSize :: int
  ppSize :: int
  ppRank :: int
  batchSize :: int
  inputSeqLen :: int
  pastSeqLen :: int


text \<open>
  A pointer into the activation memory: \<open>Act off\<close> is \<^verbatim>\<open>actBuffers->Data() + off\<close>,
  \<open>Tmp\<close> is \<^verbatim>\<open>ctx->tmpBuf.Data()\<close>.
\<close>

datatype ptr = Act int | Tmp

text \<open>\<^verbatim>\<open>xft::SequenceMeta\<close>, as far as \<^verbatim>\<open>forward(seqs)\<close> reads it.\<close>

record SequenceMeta =
  sm_inputSeqLen :: int
  sm_pastSeqLen :: int
  sm_inputTokens :: "int list"
  sm_step :: int

text \<open>The calls into collaborators, with the arguments the orchestrator passes.\<close>

datatype event =
    GetPositionIds "int list" int int int
  | KvCacheResize int int int int bool
  | EmbeddingForward "int list" ptr int
  | MpiRecvId int int
  | MpiRecv ptr int int int
  | MpiSendId int int int
  | MpiSend ptr int int int
  | ExpandPrefixCache int int int
  | ForwardAttention int ptr ptr ptr int int bool
  | ExpandCache int int int int
  | ReduceAdd ptr ptr int
  | ForwardFFN int ptr ptr
  | LastLayerNormForward ptr ptr int
  | PredictorForward ptr ptr int
  | CtxResize2 int int
  | DecoderBlockForward "SequenceMeta list" ptr ptr

text \<open>
  Modelled from the spec: \<^verbatim>\<open>DistLinear\<close>, the "(TP-sharded) output projection" whose
  \<open>(offset, size)\<close> pairs the caller assembles into full-vocabulary logits; its code is
  in \<^verbatim>\<open>dist_linear.h\<close>. Rank \<open>splitIdx\<close> of \<open>splits\<close> owns a contiguous
  share of the \<open>outputSize\<close> columns, the shares differing by at most one.
\<close>

record DistLinear =
  splitOffset :: int
  splitSize :: int

definition new_DistLinear :: "int \<Rightarrow> int \<Rightarrow> int \<Rightarrow> int \<Rightarrow> DistLinear" where
  "new_DistLinear inDim outDim splitIdx splits =
     \<lparr>splitOffset = splitIdx * (outDim sdiv splits) + min splitIdx (outDim smod splits),
      splitSize = outDim sdiv splits + (if splitIdx < outDim smod splits then 1 else 0)\<rparr>"

text \<open>
  Modelled from the spec: the process-wide scheduling singletons of the
  pipeline-parallel build (\<^verbatim>\<open>SequencePool\<close>, \<^verbatim>\<open>TaskWaitingQueue\<close>, \<^verbatim>\<open>InputQueue\<close>
  of \<^verbatim>\<open>sequence.h\<close>): "a bounded ready-queue and an inbound-request queue plus a
  registry of live sequence groups keyed by a sequence identifier". The ready queue
  holds references to registered groups (their identifiers), front first.
\<close>

record SequenceGroupMeta =
  sequenceID :: int
  sg_seqLen :: int
  sg_pastSeqLen :: int
  sg_hasBuffer :: bool

record PPState =
  maxRequestNum :: int
  taskWaitingQueue :: "int list"
  inputQueue :: "SequenceGroupMeta list"
  sequencePool :: "(int \<times> SequenceGroupMeta) list"

text \<open>
  The decoder object. \<open>context'\<close> is the shared pointer \<^verbatim>\<open>context\<close> (\<open>None\<close> is \<^verbatim>\<open>nullptr\<close>);
  \<open>decoderBlock_size\<close> is \<^verbatim>\<open>decoderBlock->size()\<close>; \<open>messenger_size\<close>,
  \<open>messenger_rank\<close> and \<open>messenger_color\<close> are what the messenger answers;
  \<open>ATTN_MLP_PARALLEL\<close> is the template parameter and \<open>PIPELINE_PARALLEL\<close> the build
  switch; \<open>world\<close> is the state of the collaborators (KV cache, weights, scratch
  buffers, MPI); \<open>trace\<close> logs the calls into them.
\<close>

record ('a, 'w) CommonDecoder =
  context' :: "DecoderContext option"
  initSeqLen :: int
  accSeqLen :: int
  prefixSeqLen :: int
  prefixSharing :: bool
  maskSize :: int
  attnMask :: "real list"
  actBuffers :: "'a list"
  decoderBlock_size :: int
  predictor :: DistLinear
  messenger_size :: int
  messenger_rank :: int
  messenger_color :: int
  ATTN_MLP_PARALLEL :: bool
  PIPELINE_PARALLEL :: bool
  pp :: PPState
  world :: 'w
  trace :: "event list"

text \<open>
  The collaborators. \<open>kernel ev mem w\<close> is what the call \<open>ev\<close> leaves in the
  activation memory and in the collaborators' state; \<open>recvSequenceID\<close> is the
  identifier the next receive delivers; \<open>getHeadRange\<close> is
  \<^verbatim>\<open>SplitUtil::getHeadRange\<close>; \<open>fresh_act\<close> and \<open>fresh_mask\<close> are the contents of
  newly allocated memory.
\<close>

record ('a, 'w) kernels =
  kernel :: "event \<Rightarrow> 'a list \<Rightarrow> 'w \<Rightarrow> (nat \<Rightarrow> 'a) \<times> 'w"
  recvSequenceID :: "'w \<Rightarrow> int"
  getHeadRange :: "int \<Rightarrow> int \<Rightarrow> int \<Rightarrow> int \<Rightarrow> (int \<times> int) \<times> (int \<times> int)"
  fresh_act :: "nat \<Rightarrow> 'a"
  fresh_mask :: "nat \<Rightarrow> real"

definition ext_call ::
  "('a, 'w) kernels \<Rightarrow> event \<Rightarrow> ('a, 'w) CommonDecoder \<Rightarrow> ('a, 'w) CommonDecoder" where
  "ext_call K ev st =
     (case kernel K ev (actBuffers st) (world st) of
        (f, w) \<Rightarrow> st\<lparr>actBuffers := map f [0..<length (actBuffers st)], world := w,
                     trace := trace st @ [ev]\<rparr>)"

section \<open>The attention mask\<close>

text \<open>\<^verbatim>\<open>CommonDecoder::getAttnMask\<close>: the mask is reallocated only when it must grow.\<close>

definition getAttnMask ::
  "('a, 'w) kernels \<Rightarrow> int \<Rightarrow> ('a, 'w) CommonDecoder \<Rightarrow> ('a, 'w) CommonDecoder" where
  "getAttnMask K sizeRequired st =
     (if maskSize st < sizeRequired
      then st\<lparr>attnMask := map (fresh_mask K) [0..<nat sizeRequired], maskSize := sizeRequired\<rparr>
      else st)"





section \<open>Buffers\<close>

text \<open>
  Modelled from the spec: \<^verbatim>\<open>Matrix::Resize(rows, cols)\<close> of the activation buffer, "a
  reusable row-major matrix ... resized (never shrunk) as needed, reused in place
  across calls"; its code is in \<^verbatim>\<open>matrix.h\<close>. A buffer that grows is allocated anew.
\<close>

definition Resize :: "('a, 'w) kernels \<Rightarrow> int \<Rightarrow> int \<Rightarrow> 'a list \<Rightarrow> 'a list" where
  "Resize K rows cols m =
     (if int (length m) < rows * cols then map (fresh_act K) [0..<nat (rows * cols)] else m)"


section \<open>forward(ids, dims, step, logitsAll)\<close>

text \<open>The arguments of a call.\<close>

record call =
  ids :: "int list"
  dims :: "int list"
  step :: int
  logitsAll :: bool

text \<open>
  The local variables of \<^verbatim>\<open>forward\<close> that live across its stages. \<open>batchSize'\<close>,
  \<open>pastSeqLen'\<close>, \<open>inputSeqLen'\<close> and \<open>hiddenSize'\<close> are the locals
  \<^verbatim>\<open>batchSize\<close>, \<^verbatim>\<open>pastSeqLen\<close>, \<^verbatim>\<open>inputSeqLen\<close> and \<^verbatim>\<open>hiddenSize\<close>.
\<close>

record frame = call +
  userSideBS :: int
  beamSize :: int
  seqLen :: int
  batchSize' :: int
  pastSeqLen' :: int
  inputSeqLen' :: int
  hiddenSize' :: int

text \<open>\<^verbatim>\<open>embBuf\<close> and \<^verbatim>\<open>outBuf\<close>, as offsets into the activation buffer.\<close>

definition embBuf :: int where
  "embBuf = 0"

definition outBuf :: "frame \<Rightarrow> int" where
  "outBuf fr = embBuf + batchSize' fr * inputSeqLen' fr * hiddenSize' fr"




subsection \<open>The pipeline-parallel hand-off\<close>

text \<open>
  Modelled from the spec: the operations of the scheduling singletons. The admission
  algorithm of the spec tests "the ready queue is not at capacity" before it pushes:
  the test is \<open>isFull\<close>, made by the caller, and \<open>push\<close> enqueues. \<open>add\<close> registers
  a group under its identifier unless the identifier is taken.
\<close>

definition has :: "PPState \<Rightarrow> int \<Rightarrow> bool" where
  "has p sid \<longleftrightarrow> map_of (sequencePool p) sid \<noteq> None"

definition add :: "SequenceGroupMeta \<Rightarrow> PPState \<Rightarrow> PPState" where
  "add g p = (if has p (sequenceID g) then p
              else p\<lparr>sequencePool := (sequenceID g, g) # sequencePool p\<rparr>)"

definition isFull :: "PPState \<Rightarrow> bool" where
  "isFull p \<longleftrightarrow> maxRequestNum p \<le> int (length (taskWaitingQueue p))"

definition push :: "int \<Rightarrow> PPState \<Rightarrow> PPState" where
  "push sid p = p\<lparr>taskWaitingQueue := taskWaitingQueue p @ [sid]\<rparr>"


text \<open>Lines 403-412: one local request is admitted when the ready queue is not full.\<close>

definition pp_admit :: "frame \<Rightarrow> ('a, 'w) CommonDecoder \<Rightarrow> ('a, 'w) CommonDecoder" where
  "pp_admit fr st =
     (case inputQueue (pp st) of
        [] \<Rightarrow> st
      | g # rest \<Rightarrow>
          if \<not> isFull (pp st) then
            let g1 = g\<lparr>sg_pastSeqLen := pastSeqLen' fr, sg_hasBuffer := True\<rparr>;
                p1 = add g1 ((pp st)\<lparr>inputQueue := rest\<rparr>)
            in st\<lparr>pp := push (sequenceID g1) p1\<rparr>
          else st)"



subsection \<open>The layers\<close>

text \<open>
  Lines 438-487, the body of the loop for layer \<open>i\<close>. \<open>Tmp\<close> is \<^verbatim>\<open>attnOut\<close>; the
  accessors \<^verbatim>\<open>getKey(i)\<close> and \<^verbatim>\<open>getValue(i)\<close> change nothing and are not logged.
\<close>

definition layer_body ::
  "('a, 'w) kernels \<Rightarrow> frame \<Rightarrow> int \<Rightarrow> ('a, 'w) CommonDecoder \<Rightarrow> ('a, 'w) CommonDecoder" where
  "layer_body K fr i st =
     (let count = batchSize' fr * inputSeqLen' fr * hiddenSize' fr;
          st1 = (if step fr = 0 \<and> prefixSharing st
                 then ext_call K (ExpandPrefixCache i (userSideBS fr) (prefixSeqLen st)) st
                 else st);
          st2 = ext_call K (ForwardAttention i (Act embBuf) (Act (outBuf fr)) Tmp
                              (inputSeqLen' fr) (pastSeqLen' fr) (step fr = 0)) st1;
          st3 = (if step fr = 0 \<and> beamSize fr > 1
                 then ext_call K (ExpandCache i (userSideBS fr) (beamSize fr) (seqLen fr)) st2
                 else st2);
          st4 = (if \<not> ATTN_MLP_PARALLEL st3 then
                   (if messenger_size st3 > 1 then ext_call K (ReduceAdd Tmp Tmp count) st3
                    else st3)
                 else st3)
      in if ATTN_MLP_PARALLEL st4 then
           (if messenger_size st4 > 1 then
              ext_call K (ReduceAdd (Act (outBuf fr)) (Act embBuf) count)
                (ext_call K (ForwardFFN i (Act embBuf) (Act (outBuf fr))) st4)
            else ext_call K (ForwardFFN i (Act embBuf) (Act embBuf)) st4)
         else
           (if messenger_size st4 > 1 then
              ext_call K (ReduceAdd (Act (outBuf fr)) (Act embBuf) count)
                (ext_call K (ForwardFFN i Tmp (Act (outBuf fr))) st4)
            else ext_call K (ForwardFFN i Tmp (Act embBuf)) st4))"




subsection \<open>Normalisation, projection and beam replication\<close>





text \<open>
  Lines 572-582: the inner loop over the beam slots \<open>idx\<close> of prompt \<open>b\<close>, and the
  outer loop over the prompts, from the last to the first.
\<close>

function beam_slots :: "int \<Rightarrow> int \<Rightarrow> int \<Rightarrow> int \<Rightarrow> int \<Rightarrow> 'a list \<Rightarrow> error + 'a list" where
  "beam_slots finalOut ss beams b idx m =
     (if idx < (b + 1) * beams then
        (if idx = b then beam_slots finalOut ss beams b (idx + 1) m
         else
           (case memcpy m (finalOut + idx * ss) (finalOut + b * ss) ss of
              Inl e \<Rightarrow> Inl e
            | Inr m1 \<Rightarrow> beam_slots finalOut ss beams b (idx + 1) m1))
      else Inr m)"
  by pat_completeness auto
termination
  by (relation "measure (\<lambda>(finalOut, ss, beams, b, idx, m). nat ((b + 1) * beams - idx))") auto

declare beam_slots.simps [simp del]

function beam_prompts :: "int \<Rightarrow> int \<Rightarrow> int \<Rightarrow> int \<Rightarrow> 'a list \<Rightarrow> error + 'a list" where
  "beam_prompts finalOut ss beams b m =
     (if 0 \<le> b then
        (case beam_slots finalOut ss beams b (b * beams) m of
           Inl e \<Rightarrow> Inl e
         | Inr m1 \<Rightarrow> beam_prompts finalOut ss beams (b - 1) m1)
      else Inr m)"
  by pat_completeness auto
termination
  by (relation "measure (\<lambda>(finalOut, ss, beams, b, m). nat (b + 1))") auto

declare beam_prompts.simps [simp del]


subsection \<open>The whole call\<close>

text \<open>
  The result \<^verbatim>\<open>(float *, int, int)\<close>: the pointer is an offset into the activation
  buffer, \<open>None\<close> is \<^verbatim>\<open>nullptr\<close>.
\<close>

type_synonym result = "int option \<times> int \<times> int"




section \<open>forward(seqs, logitsAll)\<close>

text \<open>
  \<^verbatim>\<open>CommonDecoder::prepareBuffer\<close>. The source rounds the quotient up in single
  precision; the model rounds the exact quotient up.
\<close>

definition prepareBuffer ::
  "('a, 'w) kernels \<Rightarrow> DecoderContext \<Rightarrow> int \<Rightarrow> int \<Rightarrow> ('a, 'w) CommonDecoder
     \<Rightarrow> error + ('a, 'w) CommonDecoder" where
  "prepareBuffer K ctx totInputSeqLen logitRows st =
     (if hiddenSize ctx = 0 then Inl UB
      else
        let outRows = \<lceil>real_of_int (logitRows * vocabSize ctx) / real_of_int (hiddenSize ctx)\<rceil>
        in Inr (st\<lparr>actBuffers :=
                    Resize K (totInputSeqLen + outRows) (hiddenSize ctx) (actBuffers st)\<rparr>))"

text \<open>Lines 646-653: the last row of every sequence is moved to the front.\<close>

fun copy_last_tokens ::
  "int \<Rightarrow> SequenceMeta list \<Rightarrow> int \<Rightarrow> int \<Rightarrow> 'a list \<Rightarrow> error + 'a list" where
  "copy_last_tokens hs [] b offset m = Inr m"
| "copy_last_tokens hs (sq # sqs) b offset m =
     (case memcpy m (embBuf + b * hs) (embBuf + (offset + sm_inputSeqLen sq) * hs) hs of
        Inl e \<Rightarrow> Inl e
      | Inr m1 \<Rightarrow> copy_last_tokens hs sqs (b + 1) (offset + sm_inputSeqLen sq) m1)"

text \<open>
  The two-argument \<^verbatim>\<open>ctx->resize\<close> is logged as \<open>CtxResize2\<close>: what it keeps is
  read by the decoder block only.
\<close>

definition forward_seqs ::
  "('a, 'w) kernels \<Rightarrow> ('a, 'w) CommonDecoder \<Rightarrow> SequenceMeta list \<Rightarrow> bool
     \<Rightarrow> error + (result \<times> ('a, 'w) CommonDecoder)" where
  "forward_seqs K st seqs all =
     (if seqs = [] then Inr ((None, 0, 0), st)
      else
        case context' st of
          None \<Rightarrow> Inl UB
        | Some ctx \<Rightarrow>
            let totInputSeqLen = sum_list (map sm_inputSeqLen seqs);
                totPastSeqLen = sum_list (map sm_pastSeqLen seqs);
                allInputIds = concat (map sm_inputTokens seqs);
                st1 = ext_call K (CtxResize2 totInputSeqLen (totInputSeqLen + totPastSeqLen)) st;
                logitRows = (if \<not> all \<and> sm_step (hd seqs) = 0 then int (length seqs)
                             else totInputSeqLen)
            in (case prepareBuffer K ctx totInputSeqLen logitRows st1 of
                  Inl e \<Rightarrow> Inl e
                | Inr st2 \<Rightarrow>
                    let out = embBuf + totInputSeqLen * hiddenSize ctx;
                        st3 = ext_call K (EmbeddingForward allInputIds (Act embBuf) totInputSeqLen) st2;
                        st4 = ext_call K (DecoderBlockForward seqs (Act embBuf) (Act embBuf)) st3
                    in (case (if logitRows \<noteq> totInputSeqLen
                              then copy_last_tokens (hiddenSize ctx) seqs 0 (- 1) (actBuffers st4)
                              else Inr (actBuffers st4)) of
                          Inl e \<Rightarrow> Inl e
                        | Inr m \<Rightarrow>
                            let st5 = ext_call K (LastLayerNormForward (Act embBuf) (Act embBuf) logitRows)
                                        (st4\<lparr>actBuffers := m\<rparr>);
                                st6 = ext_call K (PredictorForward (Act embBuf) (Act out) logitRows) st5
                            in Inr ((Some out, splitOffset (predictor st6),
                                     splitSize (predictor st6)), st6))))"

section \<open>Construction\<close>

text \<open>
  The section of \<^verbatim>\<open>config.ini\<close> the constructor reads, with the defaults of the reader
  applied; the keys that only parametrise the numeric kernels are left out.
\<close>

record config =
  head_num :: int
  kv_head_num :: int
  size_per_head :: int
  inter_size :: int
  num_layer :: int
  vocab_size :: int
  model_max_length :: int
  hidden_size :: int
  quant_qweight_data_type :: string
  quant_scales_data_type :: string
  quant_zeros_data_type :: string
  quant_groupsize :: int

text \<open>
  Modelled from the spec: the macro \<^verbatim>\<open>REQUIRES(condition, message)\<close> of
  \<^verbatim>\<open>compile_util.h\<close>; a violated configuration invariant is "fatal, process terminates
  with a diagnostic".
\<close>

definition REQUIRES :: "bool \<Rightarrow> string \<Rightarrow> error + unit" where
  "REQUIRES cond msg = (if cond then Inr () else Inl (Exit msg))"

text \<open>
  \<^verbatim>\<open>CommonDecoder::getDecoderContext\<close>. Its arguments are the values of the
  configuration; \<open>pipelineStage\<close> is \<^verbatim>\<open>env.getPipelineStage()\<close>.

  Modelled from the spec: the constructor of \<^verbatim>\<open>DecoderContext\<close>, which keeps its
  arguments; its code is in \<^verbatim>\<open>transformer_ctx.h\<close>.
\<close>

definition getDecoderContext ::
  "config \<Rightarrow> int \<Rightarrow> ('a, 'w) CommonDecoder \<Rightarrow> error + (DecoderContext \<times> ('a, 'w) CommonDecoder)" where
  "getDecoderContext cfg pipelineStage st =
     (case context' st of
        Some ctx \<Rightarrow>
          if hiddenSize ctx = hidden_size cfg \<and> attHeadNum ctx = head_num cfg
             \<and> kvHeadNum ctx = kv_head_num cfg \<and> intermediateSize ctx = inter_size cfg
             \<and> tpRank ctx = messenger_rank st
          then Inr (ctx, st)
          else Inl (Exit ''Different context size not unsupported!'')
      | None \<Rightarrow>
          let ctx = \<lparr>layers = num_layer cfg, hiddenSize = hidden_size cfg,
                     attHeadSize = size_per_head cfg, attHeadNum = head_num cfg,
                     kvHeadNum = kv_head_num cfg, intermediateSize = inter_size cfg,
                     vocabSize = vocab_size cfg, maxPositions = model_max_length cfg,
                     tpRank = messenger_rank st, tpSize = messenger_size st,
                     ppSize = pipelineStage, ppRank = messenger_color st,
                     batchSize = 0, inputSeqLen = 0, pastSeqLen = 0\<rparr>
          in Inr (ctx, st\<lparr>context' := Some ctx\<rparr>))"

text \<open>Lines 229-234: the checks on a quantised model.\<close>

definition check_quantization :: "config \<Rightarrow> error + unit" where
  "check_quantization cfg =
     (if quant_qweight_data_type cfg = ''int8'' \<or> quant_qweight_data_type cfg = ''uint4''
      then (case REQUIRES (quant_scales_data_type cfg = ''fp32'')
                   ''scales should be fp32 data type.'' of
              Inl e \<Rightarrow> Inl e
            | Inr _ \<Rightarrow>
                (case REQUIRES (quant_zeros_data_type cfg = ''fp32'')
                        ''zeros should be fp32 data type.'' of
                   Inl e \<Rightarrow> Inl e
                 | Inr _ \<Rightarrow>
                     REQUIRES (quant_groupsize cfg = - 1)
                       ''Quantization with groupsize is not supported.''))
      else Inr ())"

text \<open>
  The constructor. \<open>msize\<close>, \<open>mrank\<close> and \<open>mcolor\<close> are what the messenger answers,
  \<open>pp0\<close> the scheduling singletons of the process, \<open>w\<close> the state of the collaborators.
  Reading the weights and configuring the KV cache are the collaborators' work.

  Modelled from the spec: \<^verbatim>\<open>DecoderBlock::size()\<close>, the layers on duty: "each PP stage
  owns a fixed contiguous subset of layers", \<open>layers / ppSize\<close> of them.
\<close>

definition new_CommonDecoder ::
  "bool \<Rightarrow> bool \<Rightarrow> config \<Rightarrow> int \<Rightarrow> int \<Rightarrow> int \<Rightarrow> int \<Rightarrow> PPState \<Rightarrow> 'w
     \<Rightarrow> error + ('a, 'w) CommonDecoder" where
  "new_CommonDecoder attn_mlp_parallel pipeline_parallel cfg msize mrank mcolor pipelineStage pp0 w =
     (let st0 = \<lparr>context' = None, initSeqLen = 0, accSeqLen = 0, prefixSeqLen = 0,
                  prefixSharing = False, maskSize = 0, attnMask = [], actBuffers = [],
                  decoderBlock_size = 0, predictor = \<lparr>splitOffset = 0, splitSize = 0\<rparr>,
                  messenger_size = msize, messenger_rank = mrank, messenger_color = mcolor,
                  ATTN_MLP_PARALLEL = attn_mlp_parallel, PIPELINE_PARALLEL = pipeline_parallel,
                  pp = pp0, world = w, trace = []\<rparr>
      in case check_quantization cfg of
           Inl e \<Rightarrow> Inl e
         | Inr _ \<Rightarrow>
             (case getDecoderContext cfg pipelineStage st0 of
                Inl e \<Rightarrow> Inl e
              | Inr (ctx, st1) \<Rightarrow>
                  if ppSize ctx = 0 then Inl UB
                  else if num_layer cfg smod ppSize ctx \<noteq> 0
                  then Inl (Exit ''Warning: layers cannot be evenly divided by pipeline parallel stage size(ppSize).'')
                  else Inr (st1\<lparr>decoderBlock_size := num_layer cfg sdiv ppSize ctx,
                                predictor := new_DistLinear (hidden_size cfg) (vocab_size cfg)
                                               mrank msize\<rparr>)))"

section \<open>Observations\<close>

text \<open>The calls a run adds to the log.\<close>

definition new_events :: "('a, 'w) CommonDecoder \<Rightarrow> ('a, 'w) CommonDecoder \<Rightarrow> event list" where
  "new_events st st1 = drop (length (trace st)) (trace st1)"










section \<open>A small decoder\<close>

text \<open>
  Two layers, two heads, hidden size 2, a vocabulary of 3, one rank. The embedding
  writes \<open>10 + k\<close> to cell \<open>k\<close>, the predictor writes \<open>100, 101, ...\<close> from the place of
  the logits on, the other collaborators leave the activations as they are.
\<close>

definition demo_config :: config where
  "demo_config =
     \<lparr>head_num = 2, kv_head_num = 2, size_per_head = 1, inter_size = 4, num_layer = 2,
      vocab_size = 3, model_max_length = 16, hidden_size = 2,
      quant_qweight_data_type = [], quant_scales_data_type = [],
      quant_zeros_data_type = [], quant_groupsize = - 1\<rparr>"

definition demo_pp :: PPState where
  "demo_pp = \<lparr>maxRequestNum = 1, taskWaitingQueue = [], inputQueue = [],
              sequencePool = []\<rparr>"

definition demo_kernels :: "(int, unit) kernels" where
  "demo_kernels =
     \<lparr>kernel = (\<lambda>ev mem w.
         case ev of
           EmbeddingForward tokens dst n \<Rightarrow> (\<lambda>k. 10 + int k, w)
         | PredictorForward src (Act out) rows \<Rightarrow>
             (\<lambda>k. if nat out \<le> k then 100 + (int k - out) else mem ! k, w)
         | _ \<Rightarrow> (\<lambda>k. mem ! k, w)),
      recvSequenceID = (\<lambda>w. 7),
      getHeadRange = (\<lambda>heads kvHeads workers rank. ((0, heads), (0, kvHeads))),
      fresh_act = (\<lambda>k. 0),
      fresh_mask = (\<lambda>k. 1)\<rparr>"

definition demo_context :: DecoderContext where
  "demo_context =
     \<lparr>layers = 2, hiddenSize = 2, attHeadSize = 1, attHeadNum = 2, kvHeadNum = 2,
      intermediateSize = 4, vocabSize = 3, maxPositions = 16, tpRank = 0, tpSize = 1,
      ppSize = 1, ppRank = 0, batchSize = 0, inputSeqLen = 0, pastSeqLen = 0\<rparr>"

definition demo_decoder :: "(int, unit) CommonDecoder" where
  "demo_decoder =
     \<lparr>context' = Some demo_context, initSeqLen = 0, accSeqLen = 0, prefixSeqLen = 0,
      prefixSharing = False, maskSize = 0, attnMask = [], actBuffers = [],
      decoderBlock_size = 2, predictor = \<lparr>splitOffset = 0, splitSize = 3\<rparr>,
      messenger_size = 1, messenger_rank = 0, messenger_color = 0,
      ATTN_MLP_PARALLEL = False, PIPELINE_PARALLEL = False,
      pp = demo_pp, world = (), trace = []\<rparr>"

definition demo_frame :: frame where
  "demo_frame =
     \<lparr>ids = [1, 2, 3, 4], dims = [1, 1, 4], step = 0, logitsAll = False,
      userSideBS = 1, beamSize = 1, seqLen = 4, batchSize' = 1, pastSeqLen' = 0,
      inputSeqLen' = 4, hiddenSize' = 2\<rparr>"


section \<open>Notions for the proofs\<close>




section \<open>Memory lemmas\<close>


lemma store_length: "store m off n f = Inr m' \<Longrightarrow> length m' = length m"
  by (auto simp: store_def split: if_splits)
























lemma getAttnMask_context: "context' (getAttnMask K sz st) = context' st"
  by (simp add: getAttnMask_def)

section \<open>The attention mask of OptDecoder\<close>



section \<open>Calls into the collaborators\<close>

lemma ext_call_trace: "trace (ext_call K ev st) = trace st @ [ev]"
  by (simp add: ext_call_def split: prod.splits)

lemma ext_call_fields:
  "context' (ext_call K ev st) = context' st"
  "initSeqLen (ext_call K ev st) = initSeqLen st"
  "accSeqLen (ext_call K ev st) = accSeqLen st"
  "prefixSeqLen (ext_call K ev st) = prefixSeqLen st"
  "prefixSharing (ext_call K ev st) = prefixSharing st"
  "maskSize (ext_call K ev st) = maskSize st"
  "attnMask (ext_call K ev st) = attnMask st"
  "decoderBlock_size (ext_call K ev st) = decoderBlock_size st"
  "predictor (ext_call K ev st) = predictor st"
  "messenger_size (ext_call K ev st) = messenger_size st"
  "messenger_rank (ext_call K ev st) = messenger_rank st"
  "messenger_color (ext_call K ev st) = messenger_color st"
  "ATTN_MLP_PARALLEL (ext_call K ev st) = ATTN_MLP_PARALLEL st"
  "PIPELINE_PARALLEL (ext_call K ev st) = PIPELINE_PARALLEL st"
  "pp (ext_call K ev st) = pp st"
  by (simp_all add: ext_call_def split: prod.splits)



section \<open>Construction and the execution context\<close>

text \<open>
  C8. When a context exists already, \<^verbatim>\<open>getDecoderContext\<close> returns it, and leaves the
  decoder as it is, if the requested hidden size, attention head count, KV head count,
  intermediate size and TP rank are those of the context; otherwise the process ends
  with the diagnostic.
\<close>

theorem getDecoderContext_existing:
  assumes "context' st = Some ctx"
  shows "getDecoderContext cfg pipelineStage st =
           (if hiddenSize ctx = hidden_size cfg \<and> attHeadNum ctx = head_num cfg
               \<and> kvHeadNum ctx = kv_head_num cfg \<and> intermediateSize ctx = inter_size cfg
               \<and> tpRank ctx = messenger_rank st
            then Inr (ctx, st)
            else Inl (Exit ''Different context size not unsupported!''))"
  using assms by (simp add: getDecoderContext_def)

theorem getDecoderContext_existing_witness:
  "context' demo_decoder = Some demo_context \<and>
   getDecoderContext demo_config 1 demo_decoder = Inr (demo_context, demo_decoder) \<and>
   getDecoderContext (demo_config\<lparr>inter_size := 8\<rparr>) 1 demo_decoder
     = Inl (Exit ''Different context size not unsupported!'')"
proof -
  have h: "context' demo_decoder = Some demo_context" by (simp add: demo_decoder_def)
  show ?thesis
    using h getDecoderContext_existing[OF h, of demo_config 1]
      getDecoderContext_existing[OF h, of "demo_config\<lparr>inter_size := 8\<rparr>" 1]
    by (simp add: demo_context_def demo_config_def demo_decoder_def)
qed

lemma smod_eq_0_iff_dvd: "b \<noteq> 0 \<Longrightarrow> (a smod b = 0) = (b dvd a)" for a b :: int
proof -
  assume "b \<noteq> 0"
  have "(a smod b = 0) = (a = 0 \<or> \<bar>a\<bar> mod \<bar>b\<bar> = 0)"
    by (simp add: signed_modulo_int_def sgn_if)
  also have "\<dots> = (\<bar>b\<bar> dvd \<bar>a\<bar>)"
    by (auto simp: dvd_eq_mod_eq_0)
  also have "\<dots> = (b dvd a)" by simp
  finally show ?thesis .
qed

lemma getDecoderContext_new:
  "context' st = None \<Longrightarrow>
   \<exists>ctx. getDecoderContext cfg ps st = Inr (ctx, st\<lparr>context' := Some ctx\<rparr>) \<and> ppSize ctx = ps"
  by (simp add: getDecoderContext_def Let_def)

text \<open>
  C7. When the construction reaches the check (the checks on the quantisation pass)
  and the number of pipeline stages is not 0: if the layer count is not divisible by
  \<open>ppSize\<close> the process ends with the diagnostic and no decoder is built; if it is
  divisible the construction goes on and yields the decoder.
\<close>

theorem layers_divisible_or_fatal:
  assumes q: "check_quantization cfg = Inr ()" and nz: "pipelineStage \<noteq> 0"
  shows "(\<not> pipelineStage dvd num_layer cfg \<longrightarrow>
            new_CommonDecoder par pipe cfg msize mrank mcolor pipelineStage pp0 w
              = (Inl (Exit ''Warning: layers cannot be evenly divided by pipeline parallel stage size(ppSize).'')
                 :: error + ('a, 'w) CommonDecoder)) \<and>
         (pipelineStage dvd num_layer cfg \<longrightarrow>
            (\<exists>st :: ('a, 'w) CommonDecoder.
               new_CommonDecoder par pipe cfg msize mrank mcolor pipelineStage pp0 w = Inr st))"
proof -
  let ?st0 = "\<lparr>context' = None, initSeqLen = 0, accSeqLen = 0, prefixSeqLen = 0,
                  prefixSharing = False, maskSize = 0, attnMask = [], actBuffers = [],
                  decoderBlock_size = 0, predictor = \<lparr>splitOffset = 0, splitSize = 0\<rparr>,
                  messenger_size = msize, messenger_rank = mrank, messenger_color = mcolor,
                  ATTN_MLP_PARALLEL = par, PIPELINE_PARALLEL = pipe,
                  pp = pp0, world = w, trace = []\<rparr> :: ('a, 'w) CommonDecoder"
  have "context' ?st0 = None" by simp
  from getDecoderContext_new[OF this, of cfg pipelineStage] obtain ctx where
    g: "getDecoderContext cfg pipelineStage ?st0 = Inr (ctx, ?st0\<lparr>context' := Some ctx\<rparr>)"
    and p: "ppSize ctx = pipelineStage" by blast
  have run: "(new_CommonDecoder par pipe cfg msize mrank mcolor pipelineStage pp0 w
                :: error + ('a, 'w) CommonDecoder) =
      (if num_layer cfg smod pipelineStage \<noteq> 0
       then Inl (Exit ''Warning: layers cannot be evenly divided by pipeline parallel stage size(ppSize).'')
       else Inr (?st0\<lparr>context' := Some ctx,
                     decoderBlock_size := num_layer cfg sdiv pipelineStage,
                     predictor := new_DistLinear (hidden_size cfg) (vocab_size cfg) mrank msize\<rparr>))"
    using p nz by (simp add: new_CommonDecoder_def Let_def q g)
  show ?thesis unfolding run using smod_eq_0_iff_dvd[OF nz, of "num_layer cfg"] by simp
qed

theorem layers_divisible_or_fatal_witness:
  "check_quantization demo_config = Inr () \<and>
   new_CommonDecoder False False demo_config 1 0 0 3 demo_pp ()
     = (Inl (Exit ''Warning: layers cannot be evenly divided by pipeline parallel stage size(ppSize).'')
        :: error + (int, unit) CommonDecoder) \<and>
   (\<exists>st :: (int, unit) CommonDecoder.
      new_CommonDecoder False False demo_config 1 0 0 2 demo_pp () = Inr st)"
proof -
  have q: "check_quantization demo_config = Inr ()"
    by (simp add: check_quantization_def demo_config_def)
  have n: "num_layer demo_config = 2" by (simp add: demo_config_def)
  have a: "\<not> (3::int) dvd 2" by presburger
  have b: "(2::int) dvd 2" by simp
  from layers_divisible_or_fatal[OF q, of 3 False False 1 0 0 demo_pp "()"] a n
  have 1: "new_CommonDecoder False False demo_config 1 0 0 3 demo_pp ()
     = (Inl (Exit ''Warning: layers cannot be evenly divided by pipeline parallel stage size(ppSize).'')
        :: error + (int, unit) CommonDecoder)" by simp
  from layers_divisible_or_fatal[OF q, of 2 False False 1 0 0 demo_pp "()"] b n
  have 2: "\<exists>st :: (int, unit) CommonDecoder.
      new_CommonDecoder False False demo_config 1 0 0 2 demo_pp () = Inr st" by simp
  show ?thesis using q 1 2 by blast
qed

section \<open>The continuous-batch entry point\<close>

text \<open>
  C9. \<^verbatim>\<open>forward(seqs, logitsAll)\<close> on an empty vector returns \<^verbatim>\<open>(nullptr, 0, 0)\<close> and
  the decoder (context, buffers, log of calls, every field) is what it was.
\<close>

theorem forward_seqs_empty: "forward_seqs K st [] all = Inr ((None, 0, 0), st)"
  by (simp add: forward_seqs_def)

theorem forward_seqs_empty_witness:
  "forward_seqs demo_kernels demo_decoder [] False = Inr ((None, 0, 0), demo_decoder)"
  using forward_seqs_empty[of demo_kernels demo_decoder False] .

section \<open>What the stages of forward change\<close>

lemmas ext_simps = ext_call_trace ext_call_fields





















lemma layer_body_trace:
  "trace (layer_body K fr i st) = trace st @
     (if step fr = 0 \<and> prefixSharing st
      then [ExpandPrefixCache i (userSideBS fr) (prefixSeqLen st)] else []) @
     [ForwardAttention i (Act embBuf) (Act (outBuf fr)) Tmp (inputSeqLen' fr) (pastSeqLen' fr)
        (step fr = 0)] @
     (if step fr = 0 \<and> beamSize fr > 1
      then [ExpandCache i (userSideBS fr) (beamSize fr) (seqLen fr)] else []) @
     (if ATTN_MLP_PARALLEL st then
        (if messenger_size st > 1
         then [ForwardFFN i (Act embBuf) (Act (outBuf fr)),
               ReduceAdd (Act (outBuf fr)) (Act embBuf)
                 (batchSize' fr * inputSeqLen' fr * hiddenSize' fr)]
         else [ForwardFFN i (Act embBuf) (Act embBuf)])
      else
        (if messenger_size st > 1
         then [ReduceAdd Tmp Tmp (batchSize' fr * inputSeqLen' fr * hiddenSize' fr),
               ForwardFFN i Tmp (Act (outBuf fr)),
               ReduceAdd (Act (outBuf fr)) (Act embBuf)
                 (batchSize' fr * inputSeqLen' fr * hiddenSize' fr)]
         else [ForwardFFN i Tmp (Act embBuf)]))"
  by (simp add: layer_body_def Let_def ext_simps)












section \<open>The accumulated sequence length\<close>







section \<open>The layer loop\<close>

lemma new_events_append: "trace st1 = trace st @ evs \<Longrightarrow> new_events st st1 = evs"
  by (simp add: new_events_def)




text \<open>
  C4. The calls of one pass of the loop body, in order. Without \<open>ATTN_MLP_PARALLEL\<close>:
  the attention writes to \<^verbatim>\<open>attnOut\<close> (\<open>Tmp\<close>); the attention output is reduced in
  place exactly when the messenger reports more than one rank; the FFN reads
  \<^verbatim>\<open>attnOut\<close>; with more than one rank it writes to \<^verbatim>\<open>outBuf\<close>, which is then reduced
  into \<^verbatim>\<open>embBuf\<close>, and with one rank it writes to \<^verbatim>\<open>embBuf\<close> and nothing is reduced.
  With \<open>ATTN_MLP_PARALLEL\<close>: the attention output is not reduced and the FFN reads
  \<^verbatim>\<open>embBuf\<close>, the input of the layer.
\<close>

theorem layer_reductions:
  "new_events st (layer_body K fr i st) =
     (if step fr = 0 \<and> prefixSharing st
      then [ExpandPrefixCache i (userSideBS fr) (prefixSeqLen st)] else []) @
     [ForwardAttention i (Act embBuf) (Act (outBuf fr)) Tmp (inputSeqLen' fr) (pastSeqLen' fr)
        (step fr = 0)] @
     (if step fr = 0 \<and> beamSize fr > 1
      then [ExpandCache i (userSideBS fr) (beamSize fr) (seqLen fr)] else []) @
     (if ATTN_MLP_PARALLEL st then
        (if messenger_size st > 1
         then [ForwardFFN i (Act embBuf) (Act (outBuf fr)),
               ReduceAdd (Act (outBuf fr)) (Act embBuf)
                 (batchSize' fr * inputSeqLen' fr * hiddenSize' fr)]
         else [ForwardFFN i (Act embBuf) (Act embBuf)])
      else
        (if messenger_size st > 1
         then [ReduceAdd Tmp Tmp (batchSize' fr * inputSeqLen' fr * hiddenSize' fr),
               ForwardFFN i Tmp (Act (outBuf fr)),
               ReduceAdd (Act (outBuf fr)) (Act embBuf)
                 (batchSize' fr * inputSeqLen' fr * hiddenSize' fr)]
         else [ForwardFFN i Tmp (Act embBuf)]))"
  by (rule new_events_append) (rule layer_body_trace)

theorem layer_reductions_witness:
  "new_events demo_decoder (layer_body demo_kernels demo_frame 0 demo_decoder) =
     [ForwardAttention 0 (Act 0) (Act 8) Tmp 4 0 True, ForwardFFN 0 Tmp (Act 0)] \<and>
   new_events (demo_decoder\<lparr>messenger_size := 2\<rparr>)
       (layer_body demo_kernels demo_frame 0 (demo_decoder\<lparr>messenger_size := 2\<rparr>)) =
     [ForwardAttention 0 (Act 0) (Act 8) Tmp 4 0 True, ReduceAdd Tmp Tmp 8,
      ForwardFFN 0 Tmp (Act 8), ReduceAdd (Act 8) (Act 0) 8] \<and>
   new_events (demo_decoder\<lparr>messenger_size := 2, ATTN_MLP_PARALLEL := True\<rparr>)
       (layer_body demo_kernels demo_frame 0
          (demo_decoder\<lparr>messenger_size := 2, ATTN_MLP_PARALLEL := True\<rparr>)) =
     [ForwardAttention 0 (Act 0) (Act 8) Tmp 4 0 True,
      ForwardFFN 0 (Act 0) (Act 8), ReduceAdd (Act 8) (Act 0) 8]"
  using layer_reductions[of demo_decoder demo_kernels demo_frame 0]
    layer_reductions[of "demo_decoder\<lparr>messenger_size := 2\<rparr>" demo_kernels demo_frame 0]
    layer_reductions[of "demo_decoder\<lparr>messenger_size := 2, ATTN_MLP_PARALLEL := True\<rparr>"
      demo_kernels demo_frame 0]
  by (simp add: demo_decoder_def demo_frame_def embBuf_def outBuf_def)

section \<open>Beam replication\<close>

lemma memcpy_length: "memcpy m dst src n = Inr m' \<Longrightarrow> length m' = length m"
  by (auto simp: memcpy_def store_length split: if_splits)





lemma beam_slots_skip:
  "idx < (b + 1) * beams \<Longrightarrow> idx = b \<Longrightarrow>
   beam_slots base ss beams b idx m = beam_slots base ss beams b (idx + 1) m"
  by (subst beam_slots.simps) simp

lemma beam_slots_length:
  "beam_slots base ss beams b idx m = Inr m' \<Longrightarrow> length m' = length m"
proof (induction base ss beams b idx m rule: beam_slots.induct)
  case (1 base ss beams b idx m)
  show ?case
  proof (cases "idx < (b + 1) * beams")
    case False
    with "1.prems" show ?thesis by (simp add: beam_slots.simps[of base ss beams b idx m])
  next
    case True
    show ?thesis
    proof (cases "idx = b")
      case ib: True
      have "beam_slots base ss beams b (idx + 1) m = Inr m'"
        using "1.prems"(1) beam_slots_skip[OF True ib, of base ss m] by simp
      from "1.IH"(1)[OF True ib this] show ?thesis .
    next
      case ib: False
      with "1.prems" True obtain m1 where
        c: "memcpy m (base + idx * ss) (base + b * ss) ss = Inr m1" and
        r: "beam_slots base ss beams b (idx + 1) m1 = Inr m'"
        by (auto simp: beam_slots.simps[of base ss beams b idx m] split: sum.splits)
      from "1.IH"(2)[OF True ib c r] memcpy_length[OF c] show ?thesis by simp
    qed
  qed
qed






lemma beam_prompts_split:
  assumes "beam_prompts base ss beams b m = Inr m'" and "0 \<le> b"
  obtains m1 where "beam_slots base ss beams b (b * beams) m = Inr m1"
    and "beam_prompts base ss beams (b - 1) m1 = Inr m'"
  using assms by (auto simp: beam_prompts.simps[of base ss beams b m] split: sum.splits)

lemma beam_prompts_done: "\<not> 0 \<le> b \<Longrightarrow> beam_prompts base ss beams b m = Inr m"
  by (simp add: beam_prompts.simps[of base ss beams b m])

lemma beam_prompts_length:
  "beam_prompts base ss beams b m = Inr m' \<Longrightarrow> length m' = length m"
proof (induction base ss beams b m rule: beam_prompts.induct)
  case (1 base ss beams b m)
  show ?case
  proof (cases "0 \<le> b")
    case False
    with "1.prems" show ?thesis by (simp add: beam_prompts_done)
  next
    case True
    from beam_prompts_split[OF "1.prems" True] obtain m1 where
      a: "beam_slots base ss beams b (b * beams) m = Inr m1" and
      r: "beam_prompts base ss beams (b - 1) m1 = Inr m'" by blast
    from "1.IH"[OF True a r] beam_slots_length[OF a] show ?thesis by simp
  qed
qed











section \<open>Normalisation and projection\<close>

















section \<open>The ready queue\<close>

text \<open>
  The admission of a local request (lines 403-412) tests \<^verbatim>\<open>isFull\<close> before it pushes:
  it never takes the ready queue beyond its capacity.
\<close>

lemma pp_admit_within_capacity:
  assumes "int (length (taskWaitingQueue (pp st))) \<le> maxRequestNum (pp st)"
  shows "int (length (taskWaitingQueue (pp (pp_admit fr st))))
           \<le> maxRequestNum (pp (pp_admit fr st))"
  using assms
  by (auto simp: pp_admit_def Let_def isFull_def push_def add_def split: list.splits)


end
